theory Spec2Isabelle
  imports Complex_Main
begin

section \<open>Numbers, arrays and errors\<close>

text \<open>
  The two source files are \<^verbatim>\<open>brepdiff/metrics/fid.py\<close> and
  \<^verbatim>\<open>brepdiff/utils/chamfer_distance/chamfer_distance.py\<close>.

  A float64 is modelled as an exact real, or \<open>None\<close> for a value that is not finite
  (nan, inf and -inf together). Rounding and overflow are not modelled. A non-finite
  operand makes the result of \<open>+\<close>, \<open>-\<close> and \<open>*\<close> non-finite, as in IEEE arithmetic.
\<close>

type_synonym flt = "real option"

definition fl_add :: "flt \<Rightarrow> flt \<Rightarrow> flt" where
  "fl_add a b = (case a of None \<Rightarrow> None | Some x \<Rightarrow> (case b of None \<Rightarrow> None | Some y \<Rightarrow> Some (x + y)))"

definition fl_sub :: "flt \<Rightarrow> flt \<Rightarrow> flt" where
  "fl_sub a b = (case a of None \<Rightarrow> None | Some x \<Rightarrow> (case b of None \<Rightarrow> None | Some y \<Rightarrow> Some (x - y)))"

definition fl_mul :: "flt \<Rightarrow> flt \<Rightarrow> flt" where
  "fl_mul a b = (case a of None \<Rightarrow> None | Some x \<Rightarrow> (case b of None \<Rightarrow> None | Some y \<Rightarrow> Some (x * y)))"

definition fl_abs :: "flt \<Rightarrow> flt" where
  "fl_abs a = map_option abs a"

definition fl_sum :: "flt list \<Rightarrow> flt" where
  "fl_sum xs = foldr fl_add xs (Some 0)"

text \<open>
  The arguments of \<^verbatim>\<open>calculate_frechet_distance\<close>: a mean is a scalar or a 1-D array
  (\<^verbatim>\<open>np.mean(act, axis=0)\<close>), a covariance is what \<^verbatim>\<open>np.cov\<close> returns: a 0-D array for
  one feature and a 2-D array otherwise (a 1-D array is accepted too). Their entries are
  finite. A 2-D array is the list of its rows; every array without rows is \<open>[]\<close>.
\<close>

datatype mean_array = Mean0 real | Mean1 "real list"

datatype cov_array = Cov0 real | Cov1 "real list" | Cov2 "real list list"

text \<open>
  What \<^verbatim>\<open>scipy.linalg.sqrtm\<close> returns: an array of real or of complex dtype, whose entries
  may be non-finite. A complex entry is the pair of its real and imaginary part.
\<close>

datatype sqrtm_array = RealArr "flt list list" | ComplexArr "(flt \<times> flt) list list"

datatype py_error =
    AssertionError string
  | ValueError_dot_shapes
  | ValueError_imaginary flt
  | ValueError_empty_max
  | ValueError_batch_size
  | ValueError_concatenate
  | NotImplementedError string
  | RuntimeError_cat

text \<open>What the functions do besides returning: library calls and printed lines, in order.\<close>

datatype extractor = Resnet string "nat list" "nat option" | InceptionV3 "nat list"

datatype event =
    Sqrtm_call "real list list"
  | Print_singular real
  | Print_batch_warning
  | Load_model extractor
  | Run_model extractor bool "string list"
  | Np_load string
  | Print_saving string
  | Savez string mean_array cov_array

subsection \<open>numpy operations\<close>

fun atleast_1d :: "mean_array \<Rightarrow> real list" where
  "atleast_1d (Mean0 x) = [x]"
| "atleast_1d (Mean1 v) = v"

fun atleast_2d :: "cov_array \<Rightarrow> real list list" where
  "atleast_2d (Cov0 x) = [[x]]"
| "atleast_2d (Cov1 v) = [v]"
| "atleast_2d (Cov2 m) = m"

fun shape2 :: "'a list list \<Rightarrow> nat \<times> nat" where
  "shape2 [] = (0, 0)"
| "shape2 (r # rs) = (Suc (length rs), length r)"

definition column :: "'a list list \<Rightarrow> nat \<Rightarrow> 'a list" where
  "column m j = map (\<lambda>r. r ! j) m"

definition vdot :: "real list \<Rightarrow> real list \<Rightarrow> real" where
  "vdot u v = sum_list (map2 (*) u v)"

text \<open>\<^verbatim>\<open>a.dot(b)\<close> on 2-D arrays raises ValueError unless the columns of \<open>a\<close> are as many as
  the rows of \<open>b\<close>.\<close>

definition dot :: "real list list \<Rightarrow> real list list \<Rightarrow> py_error + real list list" where
  "dot a b =
     (if snd (shape2 a) = fst (shape2 b)
      then Inr (map (\<lambda>r. map (\<lambda>j. vdot r (column b j)) [0..<snd (shape2 b)]) a)
      else Inl ValueError_dot_shapes)"

definition eye :: "nat \<Rightarrow> real list list" where
  "eye n = map (\<lambda>i. map (\<lambda>j. if i = j then 1 else 0) [0..<n]) [0..<n]"

definition scale :: "real \<Rightarrow> real list list \<Rightarrow> real list list" where
  "scale c m = map (map (\<lambda>x. x * c)) m"

definition mat_add :: "real list list \<Rightarrow> real list list \<Rightarrow> real list list" where
  "mat_add a b = map2 (map2 (+)) a b"

definition diagonal :: "'a list list \<Rightarrow> 'a list" where
  "diagonal m = map (\<lambda>i. m ! i ! i) [0..<min (fst (shape2 m)) (snd (shape2 m))]"

definition trace :: "real list list \<Rightarrow> real" where
  "trace m = sum_list (diagonal m)"

definition fl_trace :: "flt list list \<Rightarrow> flt" where
  "fl_trace m = fl_sum (diagonal m)"

fun isfinite :: "flt \<Rightarrow> bool" where
  "isfinite None = False"
| "isfinite (Some x) = True"

text \<open>\<^verbatim>\<open>np.isfinite(covmean).all()\<close>; a complex entry is finite when both its parts are.\<close>

definition isfinite_all :: "sqrtm_array \<Rightarrow> bool" where
  "isfinite_all c =
     (case c of
        RealArr m \<Rightarrow> list_all (list_all isfinite) m
      | ComplexArr m \<Rightarrow> list_all (list_all (\<lambda>z. isfinite (fst z) \<and> isfinite (snd z))) m)"

text \<open>\<^verbatim>\<open>np.allclose(v, 0, atol=atol)\<close>: every entry is finite and at most \<open>atol\<close> in
  absolute value (the relative tolerance is multiplied by \<open>|0|\<close>).\<close>

definition allclose_zero :: "flt list \<Rightarrow> real \<Rightarrow> bool" where
  "allclose_zero v atol = list_all (\<lambda>x. case x of None \<Rightarrow> False | Some y \<Rightarrow> \<bar>y\<bar> \<le> atol) v"

text \<open>\<^verbatim>\<open>np.max\<close> raises ValueError on an array without entries; a non-finite entry (here
  of absolute values) makes the maximum non-finite.\<close>

definition np_max :: "flt list \<Rightarrow> py_error + flt" where
  "np_max v =
     (case v of
        [] \<Rightarrow> Inl ValueError_empty_max
      | x # xs \<Rightarrow> Inr (foldl (\<lambda>a b. case a of None \<Rightarrow> None
                                   | Some p \<Rightarrow> (case b of None \<Rightarrow> None | Some q \<Rightarrow> Some (max p q))) x xs))"

definition imag :: "(flt \<times> flt) list list \<Rightarrow> flt list list" where
  "imag m = map (map snd) m"

definition real_part :: "(flt \<times> flt) list list \<Rightarrow> flt list list" where
  "real_part m = map (map fst) m"

section \<open>The Frechet distance (fid.py)\<close>

text \<open>
  Lines 191 to 199: the square root of the product, computed again on the regularised
  covariances when it has a non-finite entry. \<open>sqrtm\<close> is scipy's function.
\<close>

definition covmean_stable ::
  "(real list list \<Rightarrow> sqrtm_array) \<Rightarrow> real list list \<Rightarrow> real list list \<Rightarrow> real
     \<Rightarrow> event list \<times> (py_error + sqrtm_array)" where
  "covmean_stable sqrtm sigma1 sigma2 eps =
     (case dot sigma1 sigma2 of
        Inl e \<Rightarrow> ([], Inl e)
      | Inr sprod \<Rightarrow>
          (let covmean = sqrtm sprod in
           if \<not> isfinite_all covmean then
             (let offset = scale eps (eye (fst (shape2 sigma1))) in
              case dot (mat_add sigma1 offset) (mat_add sigma2 offset) of
                Inl e \<Rightarrow> ([Sqrtm_call sprod, Print_singular eps], Inl e)
              | Inr sprod' \<Rightarrow>
                  ([Sqrtm_call sprod, Print_singular eps, Sqrtm_call sprod'], Inr (sqrtm sprod')))
           else ([Sqrtm_call sprod], Inr covmean)))"

text \<open>Lines 202 to 206: a complex root loses its imaginary part, or is refused.\<close>

definition covmean_real :: "sqrtm_array \<Rightarrow> py_error + flt list list" where
  "covmean_real covmean =
     (case covmean of
        RealArr m \<Rightarrow> Inr m
      | ComplexArr m \<Rightarrow>
          if \<not> allclose_zero (diagonal (imag m)) (1 / 1000) then
            (case np_max (map fl_abs (concat (imag m))) of
               Inl e \<Rightarrow> Inl e
             | Inr mx \<Rightarrow> Inl (ValueError_imaginary mx))
          else Inr (real_part m))"

text \<open>Lines 208 to 210: the value returned.\<close>

definition distance_value :: "real list \<Rightarrow> real list list \<Rightarrow> real list list \<Rightarrow> flt list list \<Rightarrow> flt" where
  "distance_value diff sigma1 sigma2 covmean =
     (let tr_covmean = fl_trace covmean in
      fl_sub (Some (vdot diff diff + trace sigma1 + trace sigma2)) (fl_mul (Some 2) tr_covmean))"

definition calculate_frechet_distance ::
  "(real list list \<Rightarrow> sqrtm_array) \<Rightarrow> mean_array \<Rightarrow> cov_array \<Rightarrow> mean_array \<Rightarrow> cov_array
     \<Rightarrow> real \<Rightarrow> event list \<times> (py_error + flt)" where
  "calculate_frechet_distance sqrtm mu1 sigma1 mu2 sigma2 eps =
     (let mu1 = atleast_1d mu1; mu2 = atleast_1d mu2;
          sigma1 = atleast_2d sigma1; sigma2 = atleast_2d sigma2 in
      if length mu1 \<noteq> length mu2 then
        ([], Inl (AssertionError ''Training and test mean vectors have different lengths''))
      else if shape2 sigma1 \<noteq> shape2 sigma2 then
        ([], Inl (AssertionError ''Training and test covariances have different dimensions''))
      else
        (let diff = map2 (-) mu1 mu2 in
         case covmean_stable sqrtm sigma1 sigma2 eps of
           (evs, Inl e) \<Rightarrow> (evs, Inl e)
         | (evs, Inr covmean) \<Rightarrow>
             (case covmean_real covmean of
                Inl e \<Rightarrow> (evs, Inl e)
              | Inr covmean \<Rightarrow> (evs, Inr (distance_value diff sigma1 sigma2 covmean)))))"

text \<open>The default of the parameter \<^verbatim>\<open>eps\<close>; no caller in the file passes another.\<close>

definition eps_default :: real where
  "eps_default = 1 / 1000000"

section \<open>Activations and statistics (fid.py)\<close>

text \<open>
  The libraries the functions call are parameters: scipy's \<^verbatim>\<open>sqrtm\<close>; \<open>features\<close>, the
  preprocessing (\<^verbatim>\<open>ToTensor\<close>, \<^verbatim>\<open>Resize\<close>, \<^verbatim>\<open>Normalize\<close> when the flag is set) followed by
  \<^verbatim>\<open>model(batch)[0]\<close> for one image, a feature map of channels, each of H rows of W
  values (the network is in \<^verbatim>\<open>eval\<close> mode, so an image's features do not depend on its
  batch); \<open>statistics\<close>, which is \<^verbatim>\<open>np.mean(act, axis=0)\<close> with \<^verbatim>\<open>np.cov(act, rowvar=False)\<close>;
  and \<^verbatim>\<open>np.load\<close> of a statistics file. The arguments \<^verbatim>\<open>device\<close>, \<^verbatim>\<open>num_workers\<close>,
  \<^verbatim>\<open>target_size\<close> and \<^verbatim>\<open>verbose\<close> change no result and are left out.
\<close>

record externals =
  linalg_sqrtm :: "real list list \<Rightarrow> sqrtm_array"
  features :: "extractor \<Rightarrow> bool \<Rightarrow> string \<Rightarrow> real list list list"
  statistics :: "flt list list \<Rightarrow> mean_array \<times> cov_array"
  np_load :: "string \<Rightarrow> mean_array \<times> cov_array"


text \<open>
  \<^verbatim>\<open>DataLoader(dataset, batch_size, shuffle=False, drop_last=False)\<close>: the files in order,
  \<open>n\<close> at a time, the last batch shorter when \<open>n\<close> does not divide their number.
\<close>

function batches :: "nat \<Rightarrow> 'a list \<Rightarrow> 'a list list" where
  "batches n xs = (if n = 0 \<or> xs = [] then [] else take n xs # batches n (drop n xs))"
  by pat_completeness auto
termination
  by (relation "measure (\<lambda>(n, xs). length xs)") auto

declare batches.simps [simp del]

text \<open>
  Lines 141 to 144 for one image: a channel that is not 1 by 1 is averaged
  (\<^verbatim>\<open>adaptive_avg_pool2d\<close> to 1 by 1; the mean of no value is nan), then the two spatial
  axes are squeezed away.
\<close>

definition pool_channel :: "real list list \<Rightarrow> flt" where
  "pool_channel ch =
     (if shape2 ch \<noteq> (1, 1) then
        (if concat ch = [] then None else Some (sum_list (concat ch) / real (length (concat ch))))
      else Some (ch ! 0 ! 0))"

definition get_activations ::
  "externals \<Rightarrow> string list \<Rightarrow> extractor \<Rightarrow> bool \<Rightarrow> int
     \<Rightarrow> event list \<times> (py_error + flt list list)" where
  "get_activations ext files model normalize_rgb batch_size =
     (let clamp = (batch_size > int (length files));
          warning = (if clamp then [Print_batch_warning] else []);
          batch_size = (if clamp then int (length files) else batch_size) in
      if batch_size \<le> 0 then (warning, Inl ValueError_batch_size)
      else
        (let dataloader = batches (nat batch_size) files;
             pred_arr = map (map (\<lambda>f. map pool_channel (features ext model normalize_rgb f))) dataloader;
             evs = warning @ map (Run_model model normalize_rgb) dataloader in
         if pred_arr = [] then (evs, Inl ValueError_concatenate)
         else (evs, Inr (concat pred_arr))))"



section \<open>The entry points (fid.py)\<close>







section \<open>The Chamfer distance operator (chamfer_distance.py)\<close>

text \<open>
  A tensor carries its sizes, its device and its entries; the entries of a well-formed
  tensor are as many as the sizes say.
\<close>

record 'a tensor3 =
  dim0 :: nat
  dim1 :: nat
  dim2 :: nat
  is_cuda :: bool
  elems :: "'a list list list"

record 'a tensor2 =
  rows2 :: nat
  cols2 :: nat
  is_cuda2 :: bool
  elems2 :: "'a list list"

definition wf3 :: "'a tensor3 \<Rightarrow> bool" where
  "wf3 t =
     (length (elems t) = dim0 t \<and>
      list_all (\<lambda>m. length m = dim1 t \<and> list_all (\<lambda>r. length r = dim2 t) m) (elems t))"

definition zeros3 :: "nat \<Rightarrow> nat \<Rightarrow> nat \<Rightarrow> real tensor3" where
  "zeros3 a b c =
     \<lparr>dim0 = a, dim1 = b, dim2 = c, is_cuda = False, elems = replicate a (replicate b (replicate c 0))\<rparr>"

definition zeros2 :: "nat \<Rightarrow> nat \<Rightarrow> 'a::zero tensor2" where
  "zeros2 a b = \<lparr>rows2 = a, cols2 = b, is_cuda2 = False, elems2 = replicate a (replicate b 0)\<rparr>"

text \<open>
  \<^verbatim>\<open>torch.cat([x, z], dim=2)\<close> raises RuntimeError unless the two tensors have the same
  sizes in the other dimensions and are on one device; it does not broadcast.
\<close>

definition cat_dim2 :: "'a tensor3 \<Rightarrow> 'a tensor3 \<Rightarrow> py_error + 'a tensor3" where
  "cat_dim2 x z =
     (if dim0 x = dim0 z \<and> dim1 x = dim1 z \<and> is_cuda x = is_cuda z
      then Inr \<lparr>dim0 = dim0 x, dim1 = dim1 x, dim2 = dim2 x + dim2 z, is_cuda = is_cuda x,
                elems = map2 (map2 (@)) (elems x) (elems z)\<rparr>
      else Inl RuntimeError_cat)"

text \<open>
  The compiled extension \<^verbatim>\<open>cd\<close> (\<^verbatim>\<open>chamfer_distance.cpp\<close>, \<^verbatim>\<open>chamfer_distance.cu\<close>) is a
  parameter. Its kernels write into tensors that the Python code has allocated, so a
  kernel is the value it stores at each index, and the sizes stay those of the
  allocation.
\<close>

record nn_values =
  dist1_at :: "nat \<Rightarrow> nat \<Rightarrow> real"
  dist2_at :: "nat \<Rightarrow> nat \<Rightarrow> real"
  idx1_at :: "nat \<Rightarrow> nat \<Rightarrow> int"
  idx2_at :: "nat \<Rightarrow> nat \<Rightarrow> int"

record grad_values =
  gradxyz1_at :: "nat \<Rightarrow> nat \<Rightarrow> nat \<Rightarrow> real"
  gradxyz2_at :: "nat \<Rightarrow> nat \<Rightarrow> nat \<Rightarrow> real"

record cd_extension =
  cd_forward :: "real tensor3 \<Rightarrow> real tensor3 \<Rightarrow> nn_values"
  cd_forward_cuda :: "real tensor3 \<Rightarrow> real tensor3 \<Rightarrow> nn_values"
  cd_backward ::
    "real tensor3 \<Rightarrow> real tensor3 \<Rightarrow> real tensor2 \<Rightarrow> real tensor2 \<Rightarrow> int tensor2 \<Rightarrow> int tensor2
       \<Rightarrow> grad_values"
  cd_backward_cuda ::
    "real tensor3 \<Rightarrow> real tensor3 \<Rightarrow> real tensor2 \<Rightarrow> real tensor2 \<Rightarrow> int tensor2 \<Rightarrow> int tensor2
       \<Rightarrow> grad_values"

definition fill2 :: "'a tensor2 \<Rightarrow> (nat \<Rightarrow> nat \<Rightarrow> 'a) \<Rightarrow> 'a tensor2" where
  "fill2 t f = t\<lparr>elems2 := map (\<lambda>b. map (\<lambda>i. f b i) [0..<cols2 t]) [0..<rows2 t]\<rparr>"

definition fill3 :: "'a tensor3 \<Rightarrow> (nat \<Rightarrow> nat \<Rightarrow> nat \<Rightarrow> 'a) \<Rightarrow> 'a tensor3" where
  "fill3 t f =
     t\<lparr>elems := map (\<lambda>b. map (\<lambda>i. map (\<lambda>c. f b i c) [0..<dim2 t]) [0..<dim1 t]) [0..<dim0 t]\<rparr>"

text \<open>\<^verbatim>\<open>ctx.saved_tensors\<close>: the point sets and the two index tensors.\<close>

type_synonym saved_tensors = "real tensor3 \<times> real tensor3 \<times> int tensor2 \<times> int tensor2"

type_synonym nn_result = "real tensor2 \<times> real tensor2 \<times> int tensor2 \<times> int tensor2"

definition forward ::
  "cd_extension \<Rightarrow> real tensor3 \<Rightarrow> real tensor3 \<Rightarrow> py_error + (saved_tensors \<times> nn_result)" where
  "forward cd xyz1 xyz2 =
     (let device = is_cuda xyz1 in
      case (if dim2 xyz1 = 2 then
              (case cat_dim2 xyz1 ((zeros3 1 (dim1 xyz1) 1)\<lparr>is_cuda := device\<rparr>) of
                 Inl e \<Rightarrow> Inl e
               | Inr xyz1' \<Rightarrow>
                   (case cat_dim2 xyz2 ((zeros3 1 (dim1 xyz2) 1)\<lparr>is_cuda := device\<rparr>) of
                      Inl e \<Rightarrow> Inl e
                    | Inr xyz2' \<Rightarrow> Inr (xyz1', xyz2')))
            else Inr (xyz1, xyz2)) of
        Inl e \<Rightarrow> Inl e
      | Inr (xyz1, xyz2) \<Rightarrow>
          (let batchsize = dim0 xyz1; n = dim1 xyz1; m = dim1 xyz2;
               dist1 = zeros2 batchsize n; dist2 = zeros2 batchsize m;
               idx1 = zeros2 batchsize n; idx2 = zeros2 batchsize m in
           if \<not> is_cuda xyz1 then
             (let v = cd_forward cd xyz1 xyz2;
                  dist1 = fill2 dist1 (dist1_at v); dist2 = fill2 dist2 (dist2_at v);
                  idx1 = fill2 idx1 (idx1_at v); idx2 = fill2 idx2 (idx2_at v) in
              Inr ((xyz1, xyz2, idx1, idx2), (dist1, dist2, idx1, idx2)))
           else
             (let dist1 = dist1\<lparr>is_cuda2 := device\<rparr>; dist2 = dist2\<lparr>is_cuda2 := device\<rparr>;
                  idx1 = idx1\<lparr>is_cuda2 := device\<rparr>; idx2 = idx2\<lparr>is_cuda2 := device\<rparr>;
                  v = cd_forward_cuda cd xyz1 xyz2;
                  dist1 = fill2 dist1 (dist1_at v); dist2 = fill2 dist2 (dist2_at v);
                  idx1 = fill2 idx1 (idx1_at v); idx2 = fill2 idx2 (idx2_at v) in
              Inr ((xyz1, xyz2, idx1, idx2), (dist1, dist2, idx1, idx2)))))"

text \<open>\<^verbatim>\<open>gradidx1\<close> and \<^verbatim>\<open>gradidx2\<close> are not read and are left out.\<close>

definition backward ::
  "cd_extension \<Rightarrow> saved_tensors \<Rightarrow> real tensor2 \<Rightarrow> real tensor2 \<Rightarrow> real tensor3 \<times> real tensor3" where
  "backward cd ctx graddist1 graddist2 =
     (case ctx of (xyz1, xyz2, idx1, idx2) \<Rightarrow>
        (let gradxyz1 = zeros3 (dim0 xyz1) (dim1 xyz1) (dim2 xyz1);
             gradxyz2 = zeros3 (dim0 xyz2) (dim1 xyz2) (dim2 xyz2) in
         if \<not> is_cuda2 graddist1 then
           (let g = cd_backward cd xyz1 xyz2 graddist1 graddist2 idx1 idx2 in
            (fill3 gradxyz1 (gradxyz1_at g), fill3 gradxyz2 (gradxyz2_at g)))
         else
           (let gradxyz1 = gradxyz1\<lparr>is_cuda := is_cuda xyz1\<rparr>;
                gradxyz2 = gradxyz2\<lparr>is_cuda := is_cuda xyz1\<rparr>;
                g = cd_backward_cuda cd xyz1 xyz2 graddist1 graddist2 idx1 idx2 in
            (fill3 gradxyz1 (gradxyz1_at g), fill3 gradxyz2 (gradxyz2_at g)))))"

text \<open>
  The embedding the specification speaks of, written from its words: every point of a
  2-D point set gets a third coordinate 0.
\<close>

definition embed_3d :: "real tensor3 \<Rightarrow> real tensor3" where
  "embed_3d t = t\<lparr>dim2 := 3, elems := map (map (\<lambda>p. p @ [0])) (elems t)\<rparr>"

section \<open>Notions of the specification\<close>








section \<open>Instances of the parameters, for the examples\<close>

text \<open>
  Some libraries for the examples: every image has one feature equal to 1, every set of
  activations has mean 0 and variance 1, every kernel stores zeros.

  A square root function for a run that takes the retry: \<open>[[0, 1], [0, 0]]\<close> has no
  square root, and scipy answers with an array of nan; every other matrix gets one fixed
  real array, close to the root of the regularised product of the example.
\<close>

definition ext_example :: externals where
  "ext_example =
     \<lparr>linalg_sqrtm = (\<lambda>_. RealArr [[Some 1]]),
      features = (\<lambda>_ _ _. [[[1]]]),
      statistics = (\<lambda>_. (Mean0 0, Cov0 1)),
      np_load = (\<lambda>_. (Mean0 0, Cov0 1))\<rparr>"

definition cd_example :: cd_extension where
  "cd_example =
     \<lparr>cd_forward = (\<lambda>_ _. \<lparr>dist1_at = (\<lambda>_ _. 0), dist2_at = (\<lambda>_ _. 0),
                               idx1_at = (\<lambda>_ _. 0), idx2_at = (\<lambda>_ _. 0)\<rparr>),
      cd_forward_cuda = (\<lambda>_ _. \<lparr>dist1_at = (\<lambda>_ _. 0), dist2_at = (\<lambda>_ _. 0),
                                    idx1_at = (\<lambda>_ _. 0), idx2_at = (\<lambda>_ _. 0)\<rparr>),
      cd_backward = (\<lambda>_ _ _ _ _ _. \<lparr>gradxyz1_at = (\<lambda>_ _ _. 0), gradxyz2_at = (\<lambda>_ _ _. 0)\<rparr>),
      cd_backward_cuda = (\<lambda>_ _ _ _ _ _. \<lparr>gradxyz1_at = (\<lambda>_ _ _. 0), gradxyz2_at = (\<lambda>_ _ _. 0)\<rparr>)\<rparr>"



text \<open>Two point sets of 2-D points on the CPU: one batch of two points, two batches of one point.\<close>

definition points_one_batch :: "real tensor3" where
  "points_one_batch =
     \<lparr>dim0 = 1, dim1 = 2, dim2 = 2, is_cuda = False, elems = [[[0, 0], [3, 4]]]\<rparr>"

definition points_two_batches :: "real tensor3" where
  "points_two_batches =
     \<lparr>dim0 = 2, dim1 = 1, dim2 = 2, is_cuda = False, elems = [[[0, 0]], [[3, 4]]]\<rparr>"

definition sqrtm_nilpotent :: "real list list \<Rightarrow> sqrtm_array" where
  "sqrtm_nilpotent m =
     (if m = [[0, 1], [0, 0]] then RealArr [[None, None], [None, None]]
      else RealArr [[Some (1 / 1000), Some 500], [Some 0, Some (1 / 1000)]])"

section \<open>Shapes\<close>

lemma shape2_eye: "shape2 (eye r) = (r, r)"
proof (cases r)
  case 0
  then show ?thesis by (simp add: eye_def)
next
  case (Suc n)
  have "[0..<Suc n] = 0 # [1..<Suc n]" by (simp add: upt_conv_Cons del: upt_Suc)
  then show ?thesis unfolding Suc eye_def by (simp del: upt_Suc)
qed

lemma shape2_scale: "shape2 (scale c m) = shape2 m"
  by (cases m) (simp_all add: scale_def)

lemma shape2_mat_add: "shape2 a = shape2 b \<Longrightarrow> shape2 (mat_add a b) = shape2 a"
  by (cases a; cases b) (simp_all add: mat_add_def)

lemma dot_square:
  assumes "shape2 s1 = shape2 s2" "dot s1 s2 = Inr p"
  shows "shape2 s1 = (fst (shape2 s1), fst (shape2 s1))"
proof -
  from assms have "snd (shape2 s1) = fst (shape2 s1)"
    by (auto simp: dot_def split: if_splits)
  then show ?thesis by (metis prod.collapse)
qed

text \<open>The product of the regularised covariances is defined whenever the first product is.\<close>

lemma regularised_dot_ok:
  assumes "shape2 s1 = shape2 s2" "dot s1 s2 = Inr p"
  shows "\<exists>p'. dot (mat_add s1 (scale eps (eye (fst (shape2 s1)))))
                  (mat_add s2 (scale eps (eye (fst (shape2 s1))))) = Inr p'"
proof -
  let ?r = "fst (shape2 s1)"
  have sq: "shape2 s1 = (?r, ?r)" using assms by (rule dot_square)
  have off: "shape2 (scale eps (eye ?r)) = (?r, ?r)" by (simp add: shape2_scale shape2_eye)
  have "shape2 (mat_add s1 (scale eps (eye ?r))) = (?r, ?r)"
    using shape2_mat_add[of s1 "scale eps (eye ?r)"] sq off by simp
  moreover have "shape2 (mat_add s2 (scale eps (eye ?r))) = (?r, ?r)"
    using shape2_mat_add[of s2 "scale eps (eye ?r)"] sq off assms(1) by simp
  ultimately show ?thesis by (simp add: dot_def)
qed

lemma not_allclose_nonempty:
  assumes "\<not> allclose_zero (diagonal x) a"
  shows "concat x \<noteq> []"
proof (cases x)
  case Nil
  then show ?thesis using assms by (simp add: diagonal_def allclose_zero_def)
next
  case (Cons row rest)
  then show ?thesis using assms by (cases row) (auto simp: diagonal_def allclose_zero_def)
qed

lemma np_max_nonempty: "v \<noteq> [] \<Longrightarrow> \<exists>mx. np_max v = Inr mx"
  by (cases v) (simp_all add: np_max_def)

section \<open>The two assertions of \<^verbatim>\<open>calculate_frechet_distance\<close>\<close>

text \<open>Once both assertions hold, the function is the rest of its body.\<close>

lemma frechet_after_asserts:
  assumes "length (atleast_1d mu1) = length (atleast_1d mu2)"
      and "shape2 (atleast_2d sigma1) = shape2 (atleast_2d sigma2)"
  shows "calculate_frechet_distance sqrtm mu1 sigma1 mu2 sigma2 eps =
     (case covmean_stable sqrtm (atleast_2d sigma1) (atleast_2d sigma2) eps of
        (evs, Inl e) \<Rightarrow> (evs, Inl e)
      | (evs, Inr covmean) \<Rightarrow>
          (case covmean_real covmean of
             Inl e \<Rightarrow> (evs, Inl e)
           | Inr covmean \<Rightarrow>
               (evs, Inr (distance_value (map2 (-) (atleast_1d mu1) (atleast_1d mu2))
                            (atleast_2d sigma1) (atleast_2d sigma2) covmean))))"
  using assms
  by (simp add: calculate_frechet_distance_def Let_def split: prod.split sum.split)

lemma covmean_real_not_assert: "covmean_real c \<noteq> Inl (AssertionError msg)"
  by (auto simp: covmean_real_def np_max_def split: sqrtm_array.splits sum.splits list.splits)

text \<open>
  C6. When the two means differ in shape, or else the two covariances do (shapes taken
  after \<^verbatim>\<open>np.atleast_1d\<close> and \<^verbatim>\<open>np.atleast_2d\<close>), the call raises AssertionError with
  the message of the assertion that failed, and nothing has been computed: no square
  root was taken and nothing was printed.
\<close>

theorem frechet_shape_mismatch_asserts:
  "(length (atleast_1d mu1) \<noteq> length (atleast_1d mu2) \<longrightarrow>
      calculate_frechet_distance sqrtm mu1 sigma1 mu2 sigma2 eps =
        ([], Inl (AssertionError ''Training and test mean vectors have different lengths''))) \<and>
   (length (atleast_1d mu1) = length (atleast_1d mu2) \<and>
    shape2 (atleast_2d sigma1) \<noteq> shape2 (atleast_2d sigma2) \<longrightarrow>
      calculate_frechet_distance sqrtm mu1 sigma1 mu2 sigma2 eps =
        ([], Inl (AssertionError ''Training and test covariances have different dimensions'')))"
  by (simp add: calculate_frechet_distance_def Let_def)

theorem frechet_shape_mismatch_asserts_witness:
  "calculate_frechet_distance (\<lambda>_. RealArr []) (Mean1 [0, 0]) (Cov0 1) (Mean0 0) (Cov0 1) eps_default =
     ([], Inl (AssertionError ''Training and test mean vectors have different lengths'')) \<and>
   calculate_frechet_distance (\<lambda>_. RealArr []) (Mean0 0) (Cov0 1) (Mean0 0) (Cov2 [[1, 0], [0, 1]])
       eps_default =
     ([], Inl (AssertionError ''Training and test covariances have different dimensions''))"
  using frechet_shape_mismatch_asserts
          [of "Mean1 [0, 0]" "Mean0 0" "\<lambda>_. RealArr []" "Cov0 1" "Cov0 1" eps_default]
        frechet_shape_mismatch_asserts
          [of "Mean0 0" "Mean0 0" "\<lambda>_. RealArr []" "Cov0 1" "Cov2 [[1, 0], [0, 1]]" eps_default]
  by simp

text \<open>
  C10. The assertions compare mean with mean and covariance with covariance only. When
  both means have length \<open>D\<close> and both covariances are \<open>D'\<close> by \<open>D'\<close> with \<open>D'\<close> other than
  \<open>D\<close>, both pass: the product of the covariances is taken, its square root is asked
  for, and whatever the call ends with is not an AssertionError.
\<close>

theorem frechet_mean_cov_dimension_unchecked:
  assumes "length (atleast_1d mu1) = D" and "length (atleast_1d mu2) = D"
      and "shape2 (atleast_2d sigma1) = (D', D')" and "shape2 (atleast_2d sigma2) = (D', D')"
      and "D' \<noteq> D"
  shows "\<exists>sprod rest r.
           dot (atleast_2d sigma1) (atleast_2d sigma2) = Inr sprod \<and>
           calculate_frechet_distance sqrtm mu1 sigma1 mu2 sigma2 eps = (Sqrtm_call sprod # rest, r) \<and>
           (\<forall>msg. r \<noteq> Inl (AssertionError msg))"
proof -
  let ?s1 = "atleast_2d sigma1" and ?s2 = "atleast_2d sigma2"
  obtain p where p: "dot ?s1 ?s2 = Inr p" using assms by (simp add: dot_def)
  have sh: "shape2 ?s1 = shape2 ?s2" using assms by simp
  obtain p' where p': "dot (mat_add ?s1 (scale eps (eye (fst (shape2 ?s1)))))
                           (mat_add ?s2 (scale eps (eye (fst (shape2 ?s1))))) = Inr p'"
    using regularised_dot_ok[OF sh p] by blast
  show ?thesis
    using p p' assms(1,2) sh covmean_real_not_assert
    by (auto simp: frechet_after_asserts covmean_stable_def Let_def split: sum.splits)
qed

theorem frechet_mean_cov_dimension_unchecked_witness:
  "length (atleast_1d (Mean1 [0, 0])) = 2 \<and> length (atleast_1d (Mean1 [3, 4])) = 2 \<and>
   shape2 (atleast_2d (Cov0 1)) = (1, 1) \<and> (1::nat) \<noteq> 2 \<and>
   (\<exists>sprod rest r.
      dot (atleast_2d (Cov0 1)) (atleast_2d (Cov0 1)) = Inr sprod \<and>
      calculate_frechet_distance (\<lambda>_. RealArr [[Some 1]]) (Mean1 [0, 0]) (Cov0 1) (Mean1 [3, 4]) (Cov0 1)
          eps_default = (Sqrtm_call sprod # rest, r) \<and>
      (\<forall>msg. r \<noteq> Inl (AssertionError msg)))"
  using frechet_mean_cov_dimension_unchecked
          [of "Mean1 [0, 0]" 2 "Mean1 [3, 4]" "Cov0 1" 1 "Cov0 1" "\<lambda>_. RealArr [[Some 1]]" eps_default]
  by simp

section \<open>The regularised retry and the imaginary part\<close>

text \<open>
  C3. Let both assertions pass and the product \<open>p\<close> of the covariances be defined. If
  \<open>sqrtm p\<close> is finite in every entry it is the only square root taken. Otherwise the
  warning is printed and the square root is taken once more, of the product \<open>p'\<close> of the
  covariances with \<open>eps\<close> added on their diagonals, and never a third time, finite or
  not. The root \<open>covmean\<close> in hand after that decides the outcome: a complex array whose
  diagonal has an imaginary part beyond \<open>1e-3\<close> raises ValueError with the largest
  absolute imaginary part of all its entries; any other complex array gives the value
  computed from its real part; a real array gives the value computed from it.
  (\<open>eps\<close> is \<open>eps_default\<close>, that is \<open>1e-6\<close>, in every call the file makes.)
\<close>

theorem frechet_single_regularised_retry:
  assumes len: "length (atleast_1d mu1) = length (atleast_1d mu2)"
      and sh: "shape2 (atleast_2d sigma1) = shape2 (atleast_2d sigma2)"
      and p: "dot (atleast_2d sigma1) (atleast_2d sigma2) = Inr p"
  shows "\<exists>p' covmean.
     dot (mat_add (atleast_2d sigma1) (scale eps (eye (fst (shape2 (atleast_2d sigma1))))))
         (mat_add (atleast_2d sigma2) (scale eps (eye (fst (shape2 (atleast_2d sigma1)))))) = Inr p' \<and>
     (isfinite_all (sqrtm p) \<longrightarrow>
        covmean = sqrtm p \<and>
        fst (calculate_frechet_distance sqrtm mu1 sigma1 mu2 sigma2 eps) = [Sqrtm_call p]) \<and>
     (\<not> isfinite_all (sqrtm p) \<longrightarrow>
        covmean = sqrtm p' \<and>
        fst (calculate_frechet_distance sqrtm mu1 sigma1 mu2 sigma2 eps) =
          [Sqrtm_call p, Print_singular eps, Sqrtm_call p']) \<and>
     (\<forall>m. covmean = ComplexArr m \<and> \<not> allclose_zero (diagonal (imag m)) (1 / 1000) \<longrightarrow>
        (\<exists>mx. np_max (map fl_abs (concat (imag m))) = Inr mx \<and>
              snd (calculate_frechet_distance sqrtm mu1 sigma1 mu2 sigma2 eps) =
                Inl (ValueError_imaginary mx))) \<and>
     (\<forall>m. covmean = ComplexArr m \<and> allclose_zero (diagonal (imag m)) (1 / 1000) \<longrightarrow>
        snd (calculate_frechet_distance sqrtm mu1 sigma1 mu2 sigma2 eps) =
          Inr (distance_value (map2 (-) (atleast_1d mu1) (atleast_1d mu2))
                 (atleast_2d sigma1) (atleast_2d sigma2) (real_part m))) \<and>
     (\<forall>m. covmean = RealArr m \<longrightarrow>
        snd (calculate_frechet_distance sqrtm mu1 sigma1 mu2 sigma2 eps) =
          Inr (distance_value (map2 (-) (atleast_1d mu1) (atleast_1d mu2))
                 (atleast_2d sigma1) (atleast_2d sigma2) m))"
proof -
  let ?s1 = "atleast_2d sigma1" and ?s2 = "atleast_2d sigma2"
  let ?evs = "if isfinite_all (sqrtm p) then [Sqrtm_call p]
              else [Sqrtm_call p, Print_singular eps, Sqrtm_call p']"
  obtain p' where p': "dot (mat_add ?s1 (scale eps (eye (fst (shape2 ?s1)))))
                           (mat_add ?s2 (scale eps (eye (fst (shape2 ?s1))))) = Inr p'"
    using regularised_dot_ok[OF sh p] by blast
  define covmean where "covmean = (if isfinite_all (sqrtm p) then sqrtm p else sqrtm p')"
  have st: "covmean_stable sqrtm ?s1 ?s2 eps =
      (if isfinite_all (sqrtm p) then [Sqrtm_call p]
       else [Sqrtm_call p, Print_singular eps, Sqrtm_call p'], Inr covmean)"
    using p p' by (simp add: covmean_stable_def covmean_def Let_def)
  have cfd: "calculate_frechet_distance sqrtm mu1 sigma1 mu2 sigma2 eps =
      (case covmean_real covmean of
         Inl e \<Rightarrow> (if isfinite_all (sqrtm p) then [Sqrtm_call p]
                    else [Sqrtm_call p, Print_singular eps, Sqrtm_call p'], Inl e)
       | Inr c \<Rightarrow> (if isfinite_all (sqrtm p) then [Sqrtm_call p]
                    else [Sqrtm_call p, Print_singular eps, Sqrtm_call p'],
                   Inr (distance_value (map2 (-) (atleast_1d mu1) (atleast_1d mu2)) ?s1 ?s2 c)))"
    by (simp add: frechet_after_asserts[OF len sh] st)
  have ev: "fst (calculate_frechet_distance sqrtm mu1 sigma1 mu2 sigma2 eps) =
      (if isfinite_all (sqrtm p) then [Sqrtm_call p]
       else [Sqrtm_call p, Print_singular eps, Sqrtm_call p'])"
    by (simp add: cfd split: sum.split)
  have bad: "\<exists>mx. np_max (map fl_abs (concat (imag m))) = Inr mx \<and>
              snd (calculate_frechet_distance sqrtm mu1 sigma1 mu2 sigma2 eps) =
                Inl (ValueError_imaginary mx)"
    if "covmean = ComplexArr m" "\<not> allclose_zero (diagonal (imag m)) (1 / 1000)" for m
  proof -
    have "map fl_abs (concat (imag m)) \<noteq> []"
      using not_allclose_nonempty[OF that(2)] by simp
    then obtain mx where mx: "np_max (map fl_abs (concat (imag m))) = Inr mx"
      using np_max_nonempty by blast
    then show ?thesis using that by (simp add: cfd covmean_real_def)
  qed
  have good: "snd (calculate_frechet_distance sqrtm mu1 sigma1 mu2 sigma2 eps) =
          Inr (distance_value (map2 (-) (atleast_1d mu1) (atleast_1d mu2)) ?s1 ?s2 (real_part m))"
    if "covmean = ComplexArr m" "allclose_zero (diagonal (imag m)) (1 / 1000)" for m
    using that by (simp add: cfd covmean_real_def)
  have re: "snd (calculate_frechet_distance sqrtm mu1 sigma1 mu2 sigma2 eps) =
          Inr (distance_value (map2 (-) (atleast_1d mu1) (atleast_1d mu2)) ?s1 ?s2 m)"
    if "covmean = RealArr m" for m
    using that by (simp add: cfd covmean_real_def)
  show ?thesis
    apply (rule exI[of _ p'], rule exI[of _ covmean])
    using p' ev bad good re by (simp add: covmean_def)
qed

text \<open>
  A run that takes the retry: the product \<open>[[0, 1], [0, 0]]\<close> has no square root (scipy
  returns an array of nan), the regularised product has one.
\<close>

lemma retry_example_products:
  "dot [[0, 1], [0, 0]] [[1, 0], [0, 1]] = Inr [[0, 1], [0, 0]]"
  "dot (mat_add [[0, 1], [0, 0]] (scale eps_default (eye (Suc (Suc 0)))))
       (mat_add [[1, 0], [0, 1]] (scale eps_default (eye (Suc (Suc 0))))) =
     Inr [[1000001 / 1000000000000, 1000001 / 1000000], [0, 1000001 / 1000000000000]]"
  by (simp_all add: dot_def vdot_def column_def eps_default_def eye_def scale_def mat_add_def
        upt_conv_Cons)

lemma retry_example:
  "calculate_frechet_distance sqrtm_nilpotent
      (Mean1 [0, 0]) (Cov2 [[0, 1], [0, 0]]) (Mean1 [0, 0]) (Cov2 [[1, 0], [0, 1]]) eps_default =
     ([Sqrtm_call [[0, 1], [0, 0]], Print_singular eps_default,
       Sqrtm_call [[1000001 / 1000000000000, 1000001 / 1000000], [0, 1000001 / 1000000000000]]],
      Inr (Some (499 / 250)))"
proof -
  have "covmean_stable sqrtm_nilpotent [[0, 1], [0, 0]] [[1, 0], [0, 1]] eps_default =
      ([Sqrtm_call [[0, 1], [0, 0]], Print_singular eps_default,
        Sqrtm_call [[1000001 / 1000000000000, 1000001 / 1000000], [0, 1000001 / 1000000000000]]],
       Inr (RealArr [[Some (1 / 1000), Some 500], [Some 0, Some (1 / 1000)]]))"
    using retry_example_products(2)
    by (simp add: covmean_stable_def retry_example_products(1) isfinite_all_def sqrtm_nilpotent_def
          Let_def)
  then show ?thesis
    by (simp add: frechet_after_asserts covmean_real_def distance_value_def vdot_def trace_def
          fl_trace_def diagonal_def fl_sum_def fl_add_def fl_sub_def fl_mul_def upt_conv_Cons)
qed

text \<open>A purely imaginary root is refused; a small imaginary part is dropped.\<close>

lemma imaginary_examples:
  "calculate_frechet_distance (\<lambda>m. ComplexArr [[(Some 0, Some 1)]])
      (Mean0 0) (Cov0 (- 1)) (Mean0 0) (Cov0 1) eps_default =
     ([Sqrtm_call [[- 1]]], Inl (ValueError_imaginary (Some 1)))"
  "calculate_frechet_distance (\<lambda>m. ComplexArr [[(Some 1, Some (1 / 10000))]])
      (Mean0 0) (Cov0 1) (Mean0 0) (Cov0 1) eps_default =
     ([Sqrtm_call [[1]]], Inr (Some 0))"
  by (simp_all add: calculate_frechet_distance_def covmean_stable_def covmean_real_def
        dot_def vdot_def column_def isfinite_all_def allclose_zero_def diagonal_def imag_def
        real_part_def np_max_def fl_abs_def distance_value_def trace_def fl_trace_def fl_sum_def
        fl_add_def fl_sub_def fl_mul_def Let_def)

theorem frechet_single_regularised_retry_witness:
  "length (atleast_1d (Mean1 [0, 0])) = length (atleast_1d (Mean1 [0, 0])) \<and>
   shape2 (atleast_2d (Cov2 [[0, 1], [0, 0]])) = shape2 (atleast_2d (Cov2 [[1, 0], [0, 1]])) \<and>
   dot (atleast_2d (Cov2 [[0, 1], [0, 0]])) (atleast_2d (Cov2 [[1, 0], [0, 1]])) = Inr [[0, 1], [0, 0]] \<and>
   \<not> isfinite_all (sqrtm_nilpotent [[0, 1], [0, 0]]) \<and>
   (\<exists>p'. dot (mat_add (atleast_2d (Cov2 [[0, 1], [0, 0]]))
                (scale eps_default (eye (fst (shape2 (atleast_2d (Cov2 [[0, 1], [0, 0]])))))))
             (mat_add (atleast_2d (Cov2 [[1, 0], [0, 1]]))
                (scale eps_default (eye (fst (shape2 (atleast_2d (Cov2 [[0, 1], [0, 0]]))))))) = Inr p' \<and>
          fst (calculate_frechet_distance sqrtm_nilpotent (Mean1 [0, 0]) (Cov2 [[0, 1], [0, 0]])
                 (Mean1 [0, 0]) (Cov2 [[1, 0], [0, 1]]) eps_default) =
            [Sqrtm_call [[0, 1], [0, 0]], Print_singular eps_default, Sqrtm_call p'])"
proof -
  have len: "length (atleast_1d (Mean1 [0, 0])) = length (atleast_1d (Mean1 [0, 0]))" by simp
  have sh: "shape2 (atleast_2d (Cov2 [[0, 1], [0, 0]])) = shape2 (atleast_2d (Cov2 [[1, 0], [0, 1]]))"
    by simp
  have p: "dot (atleast_2d (Cov2 [[0, 1], [0, 0]])) (atleast_2d (Cov2 [[1, 0], [0, 1]])) = Inr [[0, 1], [0, 0]]"
    by (simp add: retry_example_products)
  have nf: "\<not> isfinite_all (sqrtm_nilpotent [[0, 1], [0, 0]])"
    by (simp add: isfinite_all_def sqrtm_nilpotent_def)
  have "\<exists>p'. dot (mat_add (atleast_2d (Cov2 [[0, 1], [0, 0]]))
                (scale eps_default (eye (fst (shape2 (atleast_2d (Cov2 [[0, 1], [0, 0]])))))))
             (mat_add (atleast_2d (Cov2 [[1, 0], [0, 1]]))
                (scale eps_default (eye (fst (shape2 (atleast_2d (Cov2 [[0, 1], [0, 0]]))))))) = Inr p' \<and>
          fst (calculate_frechet_distance sqrtm_nilpotent (Mean1 [0, 0]) (Cov2 [[0, 1], [0, 0]])
                 (Mean1 [0, 0]) (Cov2 [[1, 0], [0, 1]]) eps_default) =
            [Sqrtm_call [[0, 1], [0, 0]], Print_singular eps_default, Sqrtm_call p']"
    using frechet_single_regularised_retry[OF len sh p, of eps_default sqrtm_nilpotent] nf
    by fast
  with len sh p nf show ?thesis by (intro conjI)
qed

section \<open>The feature extractor tags\<close>


















section \<open>Batches and activations\<close>

lemma batches_Nil [simp]: "batches n [] = []"
  by (subst batches.simps) simp

lemma concat_batches: "0 < n \<Longrightarrow> concat (batches n xs) = xs"
proof (induction n xs rule: batches.induct)
  case (1 n xs)
  show ?case
  proof (cases "xs = []")
    case True
    then show ?thesis by simp
  next
    case False
    with 1 have "concat (batches n (drop n xs)) = drop n xs" by simp
    with False 1(2) show ?thesis by (subst batches.simps) simp
  qed
qed

lemma batches_single: "xs \<noteq> [] \<Longrightarrow> length xs \<le> n \<Longrightarrow> batches n xs = [xs]"
  by (subst batches.simps, subst batches.simps) (cases xs; auto)

lemma batches_nonempty: "0 < n \<Longrightarrow> xs \<noteq> [] \<Longrightarrow> batches n xs \<noteq> []"
  by (subst batches.simps) simp

lemma batch_sizes: "0 < n \<Longrightarrow> b \<in> set (batches n xs) \<Longrightarrow> b \<noteq> [] \<and> length b \<le> n"
proof (induction n xs rule: batches.induct)
  case (1 n xs)
  show ?case
  proof (cases "xs = []")
    case True
    with 1(3) show ?thesis by simp
  next
    case False
    from 1(3) False 1(2) have "b = take n xs \<or> b \<in> set (batches n (drop n xs))"
      by (subst (asm) batches.simps) auto
    then show ?thesis
    proof
      assume "b = take n xs"
      with False 1(2) show ?thesis by auto
    next
      assume "b \<in> set (batches n (drop n xs))"
      with 1 False show ?thesis by simp
    qed
  qed
qed

lemma get_activations_returns:
  assumes "files \<noteq> []" and "0 < batch_size"
  shows "get_activations ext files model normalize_rgb batch_size =
     ((if batch_size > int (length files) then [Print_batch_warning] else []) @
        map (Run_model model normalize_rgb) (batches (nat (min batch_size (int (length files)))) files),
      Inr (map (\<lambda>f. map pool_channel (features ext model normalize_rgb f)) files))"
proof -
  let ?n = "nat (min batch_size (int (length files)))"
  have n: "0 < ?n" using assms by (cases files) auto
  have ne: "batches ?n files \<noteq> []" using n assms(1) by (rule batches_nonempty)
  have cc: "concat (map (map (\<lambda>f. map pool_channel (features ext model normalize_rgb f))) (batches ?n files))
      = map (\<lambda>f. map pool_channel (features ext model normalize_rgb f)) files"
    using concat_batches[OF n, of files] by (simp add: map_concat[symmetric])
  show ?thesis
  proof (cases "batch_size > int (length files)")
    case True
    then have "min batch_size (int (length files)) = int (length files)" by simp
    with True assms ne cc show ?thesis by (simp add: get_activations_def Let_def)
  next
    case False
    then have "min batch_size (int (length files)) = batch_size" by simp
    with False assms ne cc show ?thesis by (simp add: get_activations_def Let_def)
  qed
qed

lemma get_activations_raises:
  assumes "files = [] \<or> batch_size \<le> 0"
  shows "snd (get_activations ext files model normalize_rgb batch_size) = Inl ValueError_batch_size"
  using assms by (auto simp: get_activations_def Let_def)

text \<open>
  C8, as the code has it. For at least one file and a positive batch size the call
  returns one row per file, in the order of the files: the pooled features of that file.
  When the batch size exceeds the number of files the warning is printed and the files
  form a single batch; otherwise nothing is printed and the batches, in order, are the
  files. With no file at all, or with a batch size below 1, the \<^verbatim>\<open>DataLoader\<close> raises
  ValueError (the clamped batch size of an empty list is 0).
\<close>

theorem get_activations_one_row_per_file:
  "(files \<noteq> [] \<and> 0 < batch_size \<longrightarrow>
      (\<exists>evs act.
         get_activations ext files model normalize_rgb batch_size = (evs, Inr act) \<and>
         act = map (\<lambda>f. map pool_channel (features ext model normalize_rgb f)) files \<and>
         length act = length files \<and>
         (int (length files) < batch_size \<longrightarrow>
            evs = [Print_batch_warning, Run_model model normalize_rgb files]) \<and>
         (batch_size \<le> int (length files) \<longrightarrow>
            evs = map (Run_model model normalize_rgb) (batches (nat batch_size) files) \<and>
            concat (batches (nat batch_size) files) = files))) \<and>
   (files = [] \<or> batch_size \<le> 0 \<longrightarrow>
      snd (get_activations ext files model normalize_rgb batch_size) = Inl ValueError_batch_size)"
proof (intro conjI impI)
  assume a: "files \<noteq> [] \<and> 0 < batch_size"
  then have ne: "files \<noteq> []" and pos: "0 < batch_size" by simp_all
  let ?act = "map (\<lambda>f. map pool_channel (features ext model normalize_rgb f)) files"
  let ?evs = "(if batch_size > int (length files) then [Print_batch_warning] else []) @
        map (Run_model model normalize_rgb) (batches (nat (min batch_size (int (length files)))) files)"
  have r: "get_activations ext files model normalize_rgb batch_size = (?evs, Inr ?act)"
    using ne pos by (rule get_activations_returns)
  have big: "?evs = [Print_batch_warning, Run_model model normalize_rgb files]"
    if "int (length files) < batch_size"
  proof -
    from that have "min batch_size (int (length files)) = int (length files)" by simp
    with that ne show ?thesis by (simp add: batches_single)
  qed
  have small: "?evs = map (Run_model model normalize_rgb) (batches (nat batch_size) files) \<and>
               concat (batches (nat batch_size) files) = files"
    if "batch_size \<le> int (length files)"
  proof -
    from that have "min batch_size (int (length files)) = batch_size" by simp
    moreover have "0 < nat batch_size" using pos by simp
    ultimately show ?thesis using that by (simp add: concat_batches)
  qed
  show "\<exists>evs act.
         get_activations ext files model normalize_rgb batch_size = (evs, Inr act) \<and>
         act = ?act \<and>
         length act = length files \<and>
         (int (length files) < batch_size \<longrightarrow>
            evs = [Print_batch_warning, Run_model model normalize_rgb files]) \<and>
         (batch_size \<le> int (length files) \<longrightarrow>
            evs = map (Run_model model normalize_rgb) (batches (nat batch_size) files) \<and>
            concat (batches (nat batch_size) files) = files)"
    apply (rule exI[of _ ?evs], rule exI[of _ ?act])
    using r big small by simp
next
  assume "files = [] \<or> batch_size \<le> 0"
  then show "snd (get_activations ext files model normalize_rgb batch_size) = Inl ValueError_batch_size"
    by (rule get_activations_raises)
qed

theorem get_activations_one_row_per_file_witness:
  "[''a.png'', ''b.png'', ''c.png''] \<noteq> [] \<and> (0::int) < 50 \<and>
   get_activations ext_example [''a.png'', ''b.png'', ''c.png''] (InceptionV3 [3]) False 50 =
     ([Print_batch_warning, Run_model (InceptionV3 [3]) False [''a.png'', ''b.png'', ''c.png'']],
      Inr [[Some 1], [Some 1], [Some 1]]) \<and>
   get_activations ext_example [''a.png'', ''b.png'', ''c.png''] (InceptionV3 [3]) False 2 =
     ([Run_model (InceptionV3 [3]) False [''a.png'', ''b.png''], Run_model (InceptionV3 [3]) False [''c.png'']],
      Inr [[Some 1], [Some 1], [Some 1]]) \<and>
   snd (get_activations ext_example [''a.png''] (InceptionV3 [3]) False 0) = Inl ValueError_batch_size"
proof -
  have b2: "batches 2 [''a.png'', ''b.png'', ''c.png''] = [[''a.png'', ''b.png''], [''c.png'']]"
    by (simp add: batches.simps[of 2 "[''a.png'', ''b.png'', ''c.png'']"] batches.simps[of 2 "[''c.png'']"])
  have f: "map (\<lambda>f. map pool_channel (features ext_example (InceptionV3 [3]) False f))
             [''a.png'', ''b.png'', ''c.png''] = [[Some 1], [Some 1], [Some 1]]"
    by (simp add: ext_example_def pool_channel_def)
  show ?thesis
    using get_activations_one_row_per_file
            [where files = "[''a.png'', ''b.png'', ''c.png'']" and batch_size = 50
               and ext = ext_example and model = "InceptionV3 [3]" and normalize_rgb = False]
          get_activations_one_row_per_file
            [where files = "[''a.png'', ''b.png'', ''c.png'']" and batch_size = 2
               and ext = ext_example and model = "InceptionV3 [3]" and normalize_rgb = False]
          get_activations_one_row_per_file
            [where files = "[''a.png'']" and batch_size = 0
               and ext = ext_example and model = "InceptionV3 [3]" and normalize_rgb = False]
    unfolding f by (auto simp: b2)
qed

text \<open>
  With no file the requested batch size 50 exceeds the number of files: the warning is
  printed, the batch size becomes 0, and the \<^verbatim>\<open>DataLoader\<close> refuses it.
\<close>

theorem get_activations_empty_counterexample:
  "get_activations ext_example [] (InceptionV3 [3]) False 50 =
     ([Print_batch_warning], Inl ValueError_batch_size)"
  by (simp add: get_activations_def)

section \<open>The Chamfer forward pass on 2-D points\<close>

lemma map2_replicate:
  "length m = n \<Longrightarrow> map2 f m (replicate n c) = map (\<lambda>p. f p c) m"
  by (induction m arbitrary: n) auto

lemma cat_zeros_embed:
  assumes "wf3 t" and "dim0 t = 1" and "dim2 t = 2"
  shows "cat_dim2 t ((zeros3 1 (dim1 t) 1)\<lparr>is_cuda := is_cuda t\<rparr>) = Inr (embed_3d t)"
proof -
  from assms obtain m where m: "elems t = [m]" "length m = dim1 t"
    by (cases "elems t") (auto simp: wf3_def)
  have "map2 (map2 (@)) (elems t) (replicate 1 (replicate (dim1 t) [0::real])) =
        map (map (\<lambda>p. p @ [0])) (elems t)"
    using m by (simp add: map2_replicate)
  then show ?thesis
    using assms by (simp add: cat_dim2_def zeros3_def embed_3d_def)
qed

lemma cat_zeros_fails:
  assumes "dim0 t \<noteq> 1"
  shows "cat_dim2 t ((zeros3 1 n 1)\<lparr>is_cuda := d\<rparr>) = Inl RuntimeError_cat"
  using assms by (simp add: cat_dim2_def zeros3_def)

lemma forward_2d_single_batch:
  assumes "wf3 xyz1" and "wf3 xyz2" and "dim0 xyz1 = 1" and "dim0 xyz2 = 1"
      and "dim2 xyz1 = 2" and "dim2 xyz2 = 2" and "is_cuda xyz2 = is_cuda xyz1"
  shows "forward cd xyz1 xyz2 = forward cd (embed_3d xyz1) (embed_3d xyz2)"
proof -
  have c1: "cat_dim2 xyz1 ((zeros3 1 (dim1 xyz1) 1)\<lparr>is_cuda := is_cuda xyz1\<rparr>) = Inr (embed_3d xyz1)"
    using assms(1,3,5) by (rule cat_zeros_embed)
  have c2: "cat_dim2 xyz2 ((zeros3 1 (dim1 xyz2) 1)\<lparr>is_cuda := is_cuda xyz1\<rparr>) = Inr (embed_3d xyz2)"
    using assms cat_zeros_embed[of xyz2] by simp
  have d: "dim2 (embed_3d xyz1) = 3" "is_cuda (embed_3d xyz1) = is_cuda xyz1"
    by (simp_all add: embed_3d_def)
  show ?thesis
    unfolding forward_def[of cd xyz1 xyz2] forward_def[of cd "embed_3d xyz1" "embed_3d xyz2"]
    using assms(5) by (simp add: c1 c2 d Let_def del: One_nat_def)
qed

lemma forward_2d_other_batch_sizes:
  assumes "dim2 xyz1 = 2" and "dim0 xyz1 \<noteq> 1"
  shows "forward cd xyz1 xyz2 = Inl RuntimeError_cat"
  using assms by (simp add: forward_def cat_zeros_fails Let_def del: One_nat_def)

lemma forward_3d_returns:
  assumes "dim2 xyz1 \<noteq> 2"
  shows "\<exists>idx1 idx2 dist1 dist2.
           forward cd xyz1 xyz2 = Inr ((xyz1, xyz2, idx1, idx2), (dist1, dist2, idx1, idx2))"
  using assms by (simp add: forward_def Let_def)

text \<open>
  C2. A 2-D input is padded with \<^verbatim>\<open>torch.zeros(1, n, 1)\<close>, whose batch size is 1 whatever
  the batch size of the input. For a single batch the forward pass is the forward pass
  on the embedded points (\<open>forward_2d_single_batch\<close>). For two batches of 2-D points
  \<^verbatim>\<open>torch.cat\<close> raises, while the same points embedded in 3-D pass through to the kernel.
\<close>

theorem forward_2d_two_batches_raises:
  "forward cd points_two_batches points_two_batches = Inl RuntimeError_cat \<and>
   (\<exists>idx1 idx2 dist1 dist2.
      forward cd (embed_3d points_two_batches) (embed_3d points_two_batches) =
        Inr ((embed_3d points_two_batches, embed_3d points_two_batches, idx1, idx2),
             (dist1, dist2, idx1, idx2))) \<and>
   wf3 points_two_batches \<and> dim2 points_two_batches = 2 \<and> dim0 points_two_batches = 2 \<and>
   embed_3d points_two_batches =
     \<lparr>dim0 = 2, dim1 = 1, dim2 = 3, is_cuda = False, elems = [[[0, 0, 0]], [[3, 4, 0]]]\<rparr>"
proof -
  have a: "forward cd points_two_batches points_two_batches = Inl RuntimeError_cat"
    by (rule forward_2d_other_batch_sizes) (simp_all add: points_two_batches_def)
  have "dim2 (embed_3d points_two_batches) \<noteq> 2" by (simp add: embed_3d_def)
  from forward_3d_returns[OF this] have b: "\<exists>idx1 idx2 dist1 dist2.
      forward cd (embed_3d points_two_batches) (embed_3d points_two_batches) =
        Inr ((embed_3d points_two_batches, embed_3d points_two_batches, idx1, idx2),
             (dist1, dist2, idx1, idx2))" .
  show ?thesis using a b by (simp add: points_two_batches_def wf3_def embed_3d_def)
qed

section \<open>What backward returns after a 2-D forward pass\<close>

lemma fill3_wf: "wf3 (fill3 t f)"
  by (simp add: wf3_def fill3_def list_all_iff)

lemma fill3_dims: "dim0 (fill3 t f) = dim0 t" "dim1 (fill3 t f) = dim1 t" "dim2 (fill3 t f) = dim2 t"
  by (simp_all add: fill3_def)

lemma backward_shapes:
  "case backward cd (s1, s2, i1, i2) gd1 gd2 of (g1, g2) \<Rightarrow>
     (dim0 g1, dim1 g1, dim2 g1) = (dim0 s1, dim1 s1, dim2 s1) \<and>
     (dim0 g2, dim1 g2, dim2 g2) = (dim0 s2, dim1 s2, dim2 s2) \<and> wf3 g1 \<and> wf3 g2"
  by (simp add: backward_def Let_def fill3_wf fill3_dims zeros3_def)

lemma forward_saved_dims:
  assumes "dim2 xyz1 = 2" and "forward cd xyz1 xyz2 = Inr ((s1, s2, i1, i2), out)"
  shows "(dim0 s1, dim1 s1, dim2 s1) = (dim0 xyz1, dim1 xyz1, 3) \<and>
         (dim0 s2, dim1 s2, dim2 s2) = (dim0 xyz2, dim1 xyz2, dim2 xyz2 + 1) \<and>
         dim0 xyz1 = 1 \<and> dim0 xyz2 = 1"
  using assms
  by (auto simp: forward_def Let_def cat_dim2_def zeros3_def split: sum.splits if_splits)

lemma forward_saved_embed:
  assumes "dim2 xyz1 = 2" and "dim2 xyz2 = 2" and "wf3 xyz1" and "wf3 xyz2"
      and "forward cd xyz1 xyz2 = Inr ((s1, s2, i1, i2), out)"
  shows "s1 = embed_3d xyz1 \<and> s2 = embed_3d xyz2"
proof -
  from forward_saved_dims[OF assms(1,5)] have b: "dim0 xyz1 = 1" "dim0 xyz2 = 1" by simp_all
  have dev: "is_cuda xyz2 = is_cuda xyz1"
    using assms(1,5) by (auto simp: forward_def Let_def cat_dim2_def zeros3_def split: sum.splits if_splits)
  have "forward cd (embed_3d xyz1) (embed_3d xyz2) = Inr ((s1, s2, i1, i2), out)"
    using forward_2d_single_batch[OF assms(3,4) b assms(1,2) dev] assms(5) by simp
  moreover have "dim2 (embed_3d xyz1) \<noteq> 2" by (simp add: embed_3d_def)
  ultimately show ?thesis using forward_3d_returns[of "embed_3d xyz1" cd "embed_3d xyz2"] by auto
qed

text \<open>
  C9. When the forward pass on inputs with two coordinates returns, the tensors it saved
  have three coordinates (they are the embedded point sets when the inputs are
  well-formed), and the gradients \<^verbatim>\<open>backward\<close> returns are well-formed tensors of the sizes
  of the saved ones: their last size is 3, not the 2 of the inputs.
\<close>

theorem backward_returns_padded_shape:
  assumes "dim2 xyz1 = 2" and "dim2 xyz2 = 2"
      and "forward cd xyz1 xyz2 = Inr ((s1, s2, i1, i2), out)"
  shows "(dim0 s1, dim1 s1, dim2 s1) = (dim0 xyz1, dim1 xyz1, 3) \<and>
         (dim0 s2, dim1 s2, dim2 s2) = (dim0 xyz2, dim1 xyz2, 3) \<and>
         (wf3 xyz1 \<and> wf3 xyz2 \<longrightarrow> s1 = embed_3d xyz1 \<and> s2 = embed_3d xyz2) \<and>
         (case backward cd (s1, s2, i1, i2) graddist1 graddist2 of
            (gradxyz1, gradxyz2) \<Rightarrow>
              (dim0 gradxyz1, dim1 gradxyz1, dim2 gradxyz1) = (dim0 xyz1, dim1 xyz1, 3) \<and>
              (dim0 gradxyz2, dim1 gradxyz2, dim2 gradxyz2) = (dim0 xyz2, dim1 xyz2, 3) \<and>
              wf3 gradxyz1 \<and> wf3 gradxyz2 \<and>
              dim2 gradxyz1 \<noteq> dim2 xyz1 \<and> dim2 gradxyz2 \<noteq> dim2 xyz2)"
proof -
  have d: "(dim0 s1, dim1 s1, dim2 s1) = (dim0 xyz1, dim1 xyz1, 3)"
          "(dim0 s2, dim1 s2, dim2 s2) = (dim0 xyz2, dim1 xyz2, 3)"
    using forward_saved_dims[OF assms(1,3)] assms(2) by simp_all
  have e: "s1 = embed_3d xyz1 \<and> s2 = embed_3d xyz2" if "wf3 xyz1 \<and> wf3 xyz2"
    using forward_saved_embed[OF assms(1,2) _ _ assms(3)] that by simp
  obtain g1 g2 where g: "backward cd (s1, s2, i1, i2) graddist1 graddist2 = (g1, g2)"
    by (cases "backward cd (s1, s2, i1, i2) graddist1 graddist2")
  have b: "(dim0 g1, dim1 g1, dim2 g1) = (dim0 s1, dim1 s1, dim2 s1) \<and>
           (dim0 g2, dim1 g2, dim2 g2) = (dim0 s2, dim1 s2, dim2 s2) \<and> wf3 g1 \<and> wf3 g2"
    using backward_shapes[where cd = cd and ?s1.0 = s1 and ?s2.0 = s2 and ?i1.0 = i1 and ?i2.0 = i2
            and ?gd1.0 = graddist1 and ?gd2.0 = graddist2] g by simp
  show ?thesis using d e b assms(1,2) by (simp add: g)
qed

theorem backward_returns_padded_shape_witness:
  "dim2 points_one_batch = 2 \<and>
   (\<exists>i1 i2 out.
      forward cd_example points_one_batch points_one_batch =
        Inr ((embed_3d points_one_batch, embed_3d points_one_batch, i1, i2), out) \<and>
      (case backward cd_example (embed_3d points_one_batch, embed_3d points_one_batch, i1, i2)
              (zeros2 1 2) (zeros2 1 2) of
         (gradxyz1, gradxyz2) \<Rightarrow>
           (dim0 gradxyz1, dim1 gradxyz1, dim2 gradxyz1) = (1, 2, 3) \<and>
           (dim0 gradxyz2, dim1 gradxyz2, dim2 gradxyz2) = (1, 2, 3)))"
proof -
  have p: "dim2 points_one_batch = 2" "dim0 points_one_batch = 1" "dim1 points_one_batch = 2"
          "wf3 points_one_batch"
    by (simp_all add: points_one_batch_def wf3_def)
  have "dim2 (embed_3d points_one_batch) \<noteq> 2" by (simp add: embed_3d_def)
  from forward_3d_returns[OF this, of cd_example "embed_3d points_one_batch"]
  obtain i1 i2 d1 d2 where
    "forward cd_example (embed_3d points_one_batch) (embed_3d points_one_batch) =
       Inr ((embed_3d points_one_batch, embed_3d points_one_batch, i1, i2), (d1, d2, i1, i2))"
    by blast
  then have fw: "forward cd_example points_one_batch points_one_batch =
       Inr ((embed_3d points_one_batch, embed_3d points_one_batch, i1, i2), (d1, d2, i1, i2))"
    using forward_2d_single_batch[OF p(4) p(4) p(2) p(2) p(1) p(1) refl, of cd_example] by simp
  have bw: "case backward cd_example (embed_3d points_one_batch, embed_3d points_one_batch, i1, i2)
              (zeros2 1 2) (zeros2 1 2) of
         (gradxyz1, gradxyz2) \<Rightarrow>
           (dim0 gradxyz1, dim1 gradxyz1, dim2 gradxyz1) = (1, 2, 3) \<and>
           (dim0 gradxyz2, dim1 gradxyz2, dim2 gradxyz2) = (1, 2, 3)"
    using backward_returns_padded_shape[OF p(1) p(1) fw, of "zeros2 1 2" "zeros2 1 2"] p(2,3)
    by (simp split: prod.splits)
  show ?thesis
    apply (rule conjI[OF p(1)])
    apply (rule exI[of _ i1], rule exI[of _ i2], rule exI[of _ "(d1, d2, i1, i2)"])
    apply (rule conjI[OF fw bw])
    done
qed

section \<open>The value of the distance\<close>


















section \<open>The distance of a summary to itself\<close>













section \<open>Exchanging the two summaries\<close>































end
